theory Spec2Isabelle
  imports Main
begin

section \<open>The inspected world: Python values and model metadata\<close>

text \<open>
  \<^verbatim>\<open>inspect_model/utils.py\<close> classifies the members of a Django model class. The class,
  its \<^verbatim>\<open>_meta\<close> options and the values found on it are inputs of the code; they are
  modelled as data, with one constructor for each kind of value that the predicates of
  Python's \<^verbatim>\<open>inspect\<close> module tell apart.
\<close>

text \<open>
  The exceptions that reach the caller: an attribute read on an object that lacks it,
  the framework's \<^verbatim>\<open>FieldDoesNotExist\<close>, and the failure of \<^verbatim>\<open>inspect.getargspec\<close>
  (\<^verbatim>\<open>TypeError\<close>; under Python 3 a \<^verbatim>\<open>ValueError\<close> for a function with keyword-only
  parameters or annotations, which is not told apart here).
\<close>

datatype error = AttributeError | FieldDoesNotExist | TypeError

text \<open>
  The 4-tuple returned by \<^verbatim>\<open>inspect.getargspec\<close>: positional parameter names, the name of
  the \<^verbatim>\<open>*args\<close> parameter, the name of the \<^verbatim>\<open>**kwargs\<close> parameter, and the tuple of default
  values (\<^verbatim>\<open>None\<close> when the function has none), each default written as source text.
\<close>

type_synonym argspec = "string list \<times> string option \<times> string option \<times> string list option"

text \<open>
  A value as \<^verbatim>\<open>getattr(cls, name, None)\<close> returns it. A function or bound method carries
  its argument specification, or \<open>None\<close> when \<^verbatim>\<open>inspect.getargspec\<close> cannot produce one
  (a bound method that wraps a builtin, for instance) and raises \<^verbatim>\<open>TypeError\<close>; the flag
  says whether its code is a generator. A class carries the flag \<^verbatim>\<open>inspect.isabstract\<close> reads.
\<close>

datatype pyobj =
    PyNone
  | PyData
  | PyModule
  | PyClass bool
  | PyFunction "argspec option" bool
  | PyMethod "argspec option" bool
  | PyBuiltin
  | PyGenerator
  | PyTraceback
  | PyFrame
  | PyCode
  | PyMethodDescriptor
  | PyProperty
  | PyGetSetDescriptor
  | PyMemberDescriptor
  | PyDataDescriptor
  | PyManager

fun ismodule :: "pyobj \<Rightarrow> bool" where
  "ismodule PyModule = True"
| "ismodule _ = False"

fun isclass :: "pyobj \<Rightarrow> bool" where
  "isclass (PyClass _) = True"
| "isclass _ = False"

fun ismethod :: "pyobj \<Rightarrow> bool" where
  "ismethod (PyMethod _ _) = True"
| "ismethod _ = False"

fun isfunction :: "pyobj \<Rightarrow> bool" where
  "isfunction (PyFunction _ _) = True"
| "isfunction _ = False"

fun isgeneratorfunction :: "pyobj \<Rightarrow> bool" where
  "isgeneratorfunction (PyFunction _ g) = g"
| "isgeneratorfunction (PyMethod _ g) = g"
| "isgeneratorfunction _ = False"

fun isgenerator :: "pyobj \<Rightarrow> bool" where
  "isgenerator PyGenerator = True"
| "isgenerator _ = False"

fun istraceback :: "pyobj \<Rightarrow> bool" where
  "istraceback PyTraceback = True"
| "istraceback _ = False"

fun isframe :: "pyobj \<Rightarrow> bool" where
  "isframe PyFrame = True"
| "isframe _ = False"

fun iscode :: "pyobj \<Rightarrow> bool" where
  "iscode PyCode = True"
| "iscode _ = False"

fun ismethoddescriptor :: "pyobj \<Rightarrow> bool" where
  "ismethoddescriptor PyMethodDescriptor = True"
| "ismethoddescriptor _ = False"

fun isbuiltin :: "pyobj \<Rightarrow> bool" where
  "isbuiltin PyBuiltin = True"
| "isbuiltin _ = False"

definition isroutine :: "pyobj \<Rightarrow> bool" where
  "isroutine object =
     (isbuiltin object \<or> isfunction object \<or> ismethod object \<or> ismethoddescriptor object)"

fun isabstract :: "pyobj \<Rightarrow> bool" where
  "isabstract (PyClass a) = a"
| "isabstract _ = False"

fun isdatadescriptor :: "pyobj \<Rightarrow> bool" where
  "isdatadescriptor PyProperty = True"
| "isdatadescriptor PyGetSetDescriptor = True"
| "isdatadescriptor PyMemberDescriptor = True"
| "isdatadescriptor PyDataDescriptor = True"
| "isdatadescriptor _ = False"

fun isgetsetdescriptor :: "pyobj \<Rightarrow> bool" where
  "isgetsetdescriptor PyGetSetDescriptor = True"
| "isgetsetdescriptor _ = False"

fun ismemberdescriptor :: "pyobj \<Rightarrow> bool" where
  "ismemberdescriptor PyMemberDescriptor = True"
| "ismemberdescriptor _ = False"

text \<open>\<^verbatim>\<open>isinstance(item, property)\<close> and \<^verbatim>\<open>isinstance(item, Manager)\<close>.\<close>

fun isinstance_property :: "pyobj \<Rightarrow> bool" where
  "isinstance_property PyProperty = True"
| "isinstance_property _ = False"

fun isinstance_Manager :: "pyobj \<Rightarrow> bool" where
  "isinstance_Manager PyManager = True"
| "isinstance_Manager _ = False"

fun getargspec :: "pyobj \<Rightarrow> error + argspec" where
  "getargspec (PyFunction (Some spec) _) = Inr spec"
| "getargspec (PyMethod (Some spec) _) = Inr spec"
| "getargspec _ = Inl TypeError"

text \<open>
  The relation descriptor \<^verbatim>\<open>field.rel\<close>: its \<^verbatim>\<open>multiple\<close> flag, and whether it has an
  attribute \<^verbatim>\<open>through\<close> (what \<^verbatim>\<open>hasattr(field.rel, 'through')\<close> answers).
\<close>

record rel =
  multiple :: bool
  has_through :: bool

text \<open>
  What only a reverse relation object offers: the result of \<^verbatim>\<open>get_accessor_name()\<close> and
  the relation descriptor of the field that declares the relation (\<^verbatim>\<open>field.field.rel\<close>).
\<close>

record related =
  accessor_name :: string
  field_rel :: "rel option"

text \<open>
  An entry of the field metadata. \<open>rel\<close> is \<open>None\<close> when \<^verbatim>\<open>field.rel\<close> is; \<open>related\<close> is
  \<open>None\<close> on an object that has neither \<^verbatim>\<open>get_accessor_name\<close> nor \<^verbatim>\<open>field\<close>;
  \<open>generic_foreign_key\<close> is the answer of \<^verbatim>\<open>isinstance(f, GenericForeignKey)\<close>. The source
  also reads \<^verbatim>\<open>field.model\<close> and \<^verbatim>\<open>field.many_to_many\<close> and uses neither.
\<close>

record field =
  name :: string
  auto_created :: bool
  concrete :: bool
  many_to_many :: bool
  rel :: "rel option"
  related :: "related option"
  generic_foreign_key :: bool

text \<open>
  The options object \<^verbatim>\<open>_meta\<close>. \<^verbatim>\<open>get_field\<close> belongs to the framework, so it is a
  parameter: \<open>None\<close> stands for its \<^verbatim>\<open>FieldDoesNotExist\<close>. \<^verbatim>\<open>opts.model._meta\<close> is the
  options object itself.
\<close>

record options =
  get_fields :: "field list"
  get_field :: "string \<Rightarrow> field option"
  virtual_fields :: "field list"

text \<open>
  A class: its \<^verbatim>\<open>_meta\<close> attribute if it has one, and the names \<^verbatim>\<open>dir\<close> lists, each with
  the value found on the class.
\<close>

record py_class =
  meta :: "options option"
  members :: "(string \<times> pyobj) list"

definition dir :: "py_class \<Rightarrow> string list" where
  "dir cls = map fst (members cls)"

definition getattr :: "py_class \<Rightarrow> string \<Rightarrow> pyobj" where
  "getattr cls a = (case map_of (members cls) a of None \<Rightarrow> PyNone | Some v \<Rightarrow> v)"

text \<open>
  The constructor's argument: a class, or an instance, which knows its class and has
  attributes of its own.
\<close>

datatype model_ref =
    ClassRef py_class
  | InstanceRef py_class "(string \<times> pyobj) list"

text \<open>Which of the two optional framework modules can be imported.\<close>

record env =
  generic_importable :: bool
  manager_importable :: bool

section \<open>The inspector\<close>

definition ALL_BUT_ATTRIBUTES :: "(pyobj \<Rightarrow> bool) list" where
  "ALL_BUT_ATTRIBUTES =
     [ismodule, isclass, ismethod, isfunction, isgeneratorfunction, isgenerator,
      istraceback, isframe, iscode, isroutine, isabstract, ismethoddescriptor,
      isdatadescriptor, isgetsetdescriptor, ismemberdescriptor]"

definition DJANGO_GENERATED_METHODS :: "string set" where
  "DJANGO_GENERATED_METHODS =
     {''check'', ''clean'', ''clean_fields'', ''delete'', ''full_clean'', ''save'',
      ''save_base'', ''validate_unique''}"

record inspect_model =
  model :: py_class
  fields' :: "string set"
  relation_fields :: "string set"
  many_fields :: "string set"
  attributes :: "string set"
  methods :: "string set"
  items :: "string set"
  properties :: "string set"

datatype item_type = Fields | RelationFields | ManyFields | Attributes | Methods | Properties

text \<open>
  \<^verbatim>\<open>_add_item(item, item_type)\<close>: the second argument is one of the inspector's own six
  sets, named here by a tag; the item goes into that set and into \<open>items\<close>.
\<close>

fun add_to :: "item_type \<Rightarrow> string \<Rightarrow> inspect_model \<Rightarrow> inspect_model" where
  "add_to Fields item s = s\<lparr>fields' := insert item (fields' s)\<rparr>"
| "add_to RelationFields item s = s\<lparr>relation_fields := insert item (relation_fields s)\<rparr>"
| "add_to ManyFields item s = s\<lparr>many_fields := insert item (many_fields s)\<rparr>"
| "add_to Attributes item s = s\<lparr>attributes := insert item (attributes s)\<rparr>"
| "add_to Methods item s = s\<lparr>methods := insert item (methods s)\<rparr>"
| "add_to Properties item s = s\<lparr>properties := insert item (properties s)\<rparr>"

definition add_item :: "string \<Rightarrow> item_type \<Rightarrow> inspect_model \<Rightarrow> inspect_model" where
  "add_item item ty s = (let s' = add_to ty item s in s'\<lparr>items := insert item (items s')\<rparr>)"

definition startswith :: "string \<Rightarrow> string \<Rightarrow> bool" where
  "startswith a p = (take (length p) a = p)"

text \<open>The body of the loop over the field names in \<^verbatim>\<open>update_fields\<close>, for one field.\<close>

definition classify_field :: "field \<Rightarrow> inspect_model \<Rightarrow> error + inspect_model" where
  "classify_field f s =
     (let direct = (\<not> auto_created f \<or> concrete f) in
      if \<not> direct then
        (case related f of
           None \<Rightarrow> Inl AttributeError
         | Some r \<Rightarrow>
             (case field_rel r of
                None \<Rightarrow> Inl AttributeError
              | Some fr \<Rightarrow>
                  if multiple fr then Inr (add_item (accessor_name r) ManyFields s)
                  else Inr (add_item (accessor_name r) RelationFields s)))
      else
        (case rel f of
           Some fr \<Rightarrow>
             if has_through fr then Inr (add_item (name f) ManyFields s)
             else Inr (add_item (name f) RelationFields s)
         | None \<Rightarrow> Inr (add_item (name f) Fields s)))"

fun fields_loop :: "options \<Rightarrow> string list \<Rightarrow> inspect_model \<Rightarrow> error + inspect_model" where
  "fields_loop opts [] s = Inr s"
| "fields_loop opts (f # fs) s =
     (case get_field opts f of
        None \<Rightarrow> Inl FieldDoesNotExist
      | Some fld \<Rightarrow>
          (case classify_field fld s of
             Inl e \<Rightarrow> Inl e
           | Inr s' \<Rightarrow> fields_loop opts fs s'))"

text \<open>The loop over \<^verbatim>\<open>opts.virtual_fields\<close>, reached only when the import succeeded.\<close>

fun virtual_loop :: "field list \<Rightarrow> inspect_model \<Rightarrow> inspect_model" where
  "virtual_loop [] s = s"
| "virtual_loop (f # fs) s =
     (if generic_foreign_key f then virtual_loop fs (add_item (name f) RelationFields s)
      else virtual_loop fs s)"

text \<open>The \<^verbatim>\<open>try: ... except ImportError: pass\<close> block.\<close>

definition generic_scan :: "env \<Rightarrow> options \<Rightarrow> inspect_model \<Rightarrow> inspect_model" where
  "generic_scan e opts s =
     (if generic_importable e then virtual_loop (virtual_fields opts) s else s)"

definition update_fields :: "env \<Rightarrow> inspect_model \<Rightarrow> error + inspect_model" where
  "update_fields e s0 =
     (let s = s0\<lparr>fields' := {}, relation_fields := {}, many_fields := {}\<rparr> in
      case meta (model s) of
        None \<Rightarrow> Inr s
      | Some opts \<Rightarrow>
          (let opts_names = map name (get_fields opts) in
           case fields_loop opts opts_names s of
             Inl err \<Rightarrow> Inl err
           | Inr s' \<Rightarrow> Inr (generic_scan e opts s')))"

fun attributes_loop :: "env \<Rightarrow> string list \<Rightarrow> inspect_model \<Rightarrow> inspect_model" where
  "attributes_loop e [] s = s"
| "attributes_loop e (a # as) s =
     (if startswith a ''_'' \<or> a \<in> fields' s then attributes_loop e as s
      else
        (let item = getattr (model s) a in
         if manager_importable e \<and> isinstance_Manager item then attributes_loop e as s
         else if list_ex (\<lambda>check. check item) ALL_BUT_ATTRIBUTES then attributes_loop e as s
         else attributes_loop e as (add_item a Attributes s)))"

definition update_attributes :: "env \<Rightarrow> inspect_model \<Rightarrow> inspect_model" where
  "update_attributes e s0 =
     (let s = s0\<lparr>attributes := {}\<rparr> in attributes_loop e (dir (model s)) s)"

definition is_method_without_args :: "pyobj \<Rightarrow> error + bool" where
  "is_method_without_args func =
     (if \<not> isfunction func \<and> \<not> ismethod func then Inr False
      else
        (case getargspec func of
           Inl err \<Rightarrow> Inl err
         | Inr (args, var, named, defaults) \<Rightarrow>
             (let args' =
                (case defaults of
                   None \<Rightarrow> args
                 | Some ds \<Rightarrow> if ds \<noteq> [] then take (length args - length ds) args else args)
              in Inr (length args' = 1))))"

fun methods_loop :: "string list \<Rightarrow> inspect_model \<Rightarrow> error + inspect_model" where
  "methods_loop [] s = Inr s"
| "methods_loop (m # ms) s =
     (if startswith m ''_'' \<or> m \<in> fields' s then methods_loop ms s
      else if m \<in> DJANGO_GENERATED_METHODS then methods_loop ms s
      else
        (case is_method_without_args (getattr (model s) m) of
           Inl err \<Rightarrow> Inl err
         | Inr b \<Rightarrow> if b then methods_loop ms (add_item m Methods s) else methods_loop ms s))"

definition update_methods :: "inspect_model \<Rightarrow> error + inspect_model" where
  "update_methods s0 = (let s = s0\<lparr>methods := {}\<rparr> in methods_loop (dir (model s)) s)"

fun properties_loop :: "string list \<Rightarrow> inspect_model \<Rightarrow> inspect_model" where
  "properties_loop [] s = s"
| "properties_loop (n # ns) s =
     (if isinstance_property (getattr (model s) n)
      then properties_loop ns (add_item n Properties s)
      else properties_loop ns s)"

definition update_properties :: "inspect_model \<Rightarrow> inspect_model" where
  "update_properties s0 = (let s = s0\<lparr>properties := {}\<rparr> in properties_loop (dir (model s)) s)"

text \<open>\<^verbatim>\<open>self.model = model; if not inspect.isclass(model): self.model = model.__class__\<close>\<close>

fun resolve_model :: "model_ref \<Rightarrow> py_class" where
  "resolve_model (ClassRef cls) = cls"
| "resolve_model (InstanceRef cls d) = cls"

text \<open>The assignments at the top of \<^verbatim>\<open>InspectModel.__init__\<close>: the resolved model and seven empty sets.\<close>

definition initial :: "py_class \<Rightarrow> inspect_model" where
  "initial cls =
     \<lparr>model = cls, fields' = {}, relation_fields = {}, many_fields = {}, attributes = {},
      methods = {}, items = {}, properties = {}\<rparr>"

text \<open>\<^verbatim>\<open>InspectModel.__init__\<close>: the four passes, in the order of the source.\<close>

definition init :: "env \<Rightarrow> model_ref \<Rightarrow> error + inspect_model" where
  "init e ref =
     (let s = initial (resolve_model ref) in
      case update_fields e s of
        Inl err \<Rightarrow> Inl err
      | Inr s1 \<Rightarrow>
          (let s2 = update_attributes e s1 in
           case update_methods s2 of
             Inl err \<Rightarrow> Inl err
           | Inr s3 \<Rightarrow> Inr (update_properties s3)))"

section \<open>Notions used to state the properties\<close>

text \<open>
  The test a name passes in \<^verbatim>\<open>update_attributes\<close> to be added: none of the four
  \<^verbatim>\<open>continue\<close> statements of the loop body fires.
\<close>

definition is_attribute :: "env \<Rightarrow> py_class \<Rightarrow> string set \<Rightarrow> string \<Rightarrow> bool" where
  "is_attribute e cls flds a =
     (\<not> startswith a ''_'' \<and> a \<notin> flds \<and>
      \<not> (manager_importable e \<and> isinstance_Manager (getattr cls a)) \<and>
      \<not> list_ex (\<lambda>check. check (getattr cls a)) ALL_BUT_ATTRIBUTES)"

text \<open>
  The names \<^verbatim>\<open>update_methods\<close> hands to \<^verbatim>\<open>is_method_without_args\<close>: neither of its two
  \<^verbatim>\<open>continue\<close> statements fires.
\<close>

definition scanned :: "string set \<Rightarrow> string \<Rightarrow> bool" where
  "scanned flds m = (\<not> startswith m ''_'' \<and> m \<notin> flds \<and> m \<notin> DJANGO_GENERATED_METHODS)"

text \<open>
  \<^verbatim>\<open>inspect.getargspec\<close> answers for every member that \<^verbatim>\<open>update_methods\<close> asks about.
\<close>

definition signatures_known :: "py_class \<Rightarrow> string set \<Rightarrow> bool" where
  "signatures_known cls flds =
     list_all (\<lambda>m. scanned flds m \<longrightarrow> \<not> isl (is_method_without_args (getattr cls m))) (dir cls)"

text \<open>
  The specification's count for the method test: the positional parameters, less the
  receiver, less the parameters that have a default.
\<close>

fun required_parameter_count :: "argspec \<Rightarrow> int" where
  "required_parameter_count (args, var, named, defaults) =
     int (length args) - 1 - (case defaults of None \<Rightarrow> 0 | Some ds \<Rightarrow> int (length ds))"

text \<open>
  The specification's case analysis for one field entry \<open>f\<close>, read on a finished
  inspector: a direct entry with relation metadata is under its name in \<open>many_fields\<close> when
  the relation has a link table and in \<open>relation_fields\<close> otherwise; a direct entry without
  relation metadata is in \<open>fields'\<close>; a reverse entry is under its accessor name in
  \<open>many_fields\<close> when the remote relation is multiple and in \<open>relation_fields\<close> otherwise.
\<close>

definition classified_as_specified :: "field \<Rightarrow> inspect_model \<Rightarrow> bool" where
  "classified_as_specified f s =
     (if \<not> auto_created f \<or> concrete f then
        (case rel f of
           None \<Rightarrow> name f \<in> fields' s
         | Some fr \<Rightarrow>
             if has_through fr then name f \<in> many_fields s else name f \<in> relation_fields s)
      else
        (case related f of
           None \<Rightarrow> False
         | Some r \<Rightarrow>
             (case field_rel r of
                None \<Rightarrow> False
              | Some fr \<Rightarrow>
                  if multiple fr then accessor_name r \<in> many_fields s
                  else accessor_name r \<in> relation_fields s)))"

section \<open>Example models\<close>

text \<open>A runtime where both optional imports succeed, and one without the generic relations.\<close>

definition django :: env where
  "django = \<lparr>generic_importable = True, manager_importable = True\<rparr>"

definition django_without_generic :: env where
  "django_without_generic = \<lparr>generic_importable = False, manager_importable = True\<rparr>"

text \<open>The metadata entries of the usual kinds of field.\<close>

definition plain_field :: "string \<Rightarrow> field" where
  "plain_field n =
     \<lparr>name = n, auto_created = False, concrete = True, many_to_many = False, rel = None,
      related = None, generic_foreign_key = False\<rparr>"

definition foreign_key :: "string \<Rightarrow> field" where
  "foreign_key n =
     \<lparr>name = n, auto_created = False, concrete = True, many_to_many = False,
      rel = Some \<lparr>multiple = True, has_through = False\<rparr>,
      related = None, generic_foreign_key = False\<rparr>"

definition many_to_many_field :: "string \<Rightarrow> field" where
  "many_to_many_field n =
     \<lparr>name = n, auto_created = False, concrete = True, many_to_many = True,
      rel = Some \<lparr>multiple = True, has_through = True\<rparr>,
      related = None, generic_foreign_key = False\<rparr>"

definition generic_key :: "string \<Rightarrow> field" where
  "generic_key n =
     \<lparr>name = n, auto_created = False, concrete = False, many_to_many = False, rel = None,
      related = None, generic_foreign_key = True\<rparr>"

definition reverse_relation :: "string \<Rightarrow> string \<Rightarrow> bool \<Rightarrow> field" where
  "reverse_relation n accessor mult =
     \<lparr>name = n, auto_created = True, concrete = False, many_to_many = False, rel = None,
      related = Some \<lparr>accessor_name = accessor,
                       field_rel = Some \<lparr>multiple = mult, has_through = False\<rparr>\<rparr>,
      generic_foreign_key = False\<rparr>"

text \<open>Options whose \<^verbatim>\<open>get_field\<close> finds each declared field by its name.\<close>

definition options_of :: "field list \<Rightarrow> field list \<Rightarrow> options" where
  "options_of fs vs =
     \<lparr>get_fields = fs, get_field = map_of (map (\<lambda>f. (name f, f)) fs), virtual_fields = vs\<rparr>"

definition method_of :: "string list \<Rightarrow> string list option \<Rightarrow> pyobj" where
  "method_of args defaults = PyFunction (Some (args, None, None, defaults)) False"

text \<open>
  A model with a text field \<^verbatim>\<open>title\<close>, a foreign key \<^verbatim>\<open>author\<close>, a many-to-many \<^verbatim>\<open>tags\<close>,
  a property \<^verbatim>\<open>display_name\<close> and a method \<^verbatim>\<open>summary(self)\<close>.
\<close>

definition article :: py_class where
  "article =
     \<lparr>meta = Some (options_of
        [plain_field ''title'', foreign_key ''author'', many_to_many_field ''tags''] []),
      members =
        [(''__module__'', PyData), (''_meta'', PyData), (''author'', PyDataDescriptor),
         (''display_name'', PyProperty), (''objects'', PyManager),
         (''summary'', method_of [''self''] None), (''tags'', PyDataDescriptor)]\<rparr>"

definition article_inspector :: inspect_model where
  "article_inspector =
     \<lparr>model = article, fields' = {''title''}, relation_fields = {''author''},
      many_fields = {''tags''}, attributes = {}, methods = {''summary''},
      items = {''title'', ''author'', ''tags'', ''summary'', ''display_name''},
      properties = {''display_name''}\<rparr>"

text \<open>A model with reverse relations: entries point at it, and a profile is one-to-one.\<close>

definition blog_options :: options where
  "blog_options =
     options_of
       [plain_field ''name'', foreign_key ''owner'', many_to_many_field ''editors'',
        reverse_relation ''entry'' ''entry_set'' True,
        reverse_relation ''profile'' ''profile'' False] []"

definition blog :: py_class where
  "blog =
     \<lparr>meta = Some blog_options,
      members = [(''owner'', PyDataDescriptor), (''editors'', PyDataDescriptor)]\<rparr>"

definition blog_inspector :: inspect_model where
  "blog_inspector =
     \<lparr>model = blog, fields' = {''name''}, relation_fields = {''profile'', ''owner''},
      many_fields = {''entry_set'', ''editors''}, attributes = {}, methods = {},
      items = {''name'', ''owner'', ''editors'', ''entry_set'', ''profile''},
      properties = {}\<rparr>"

text \<open>
  A model with a generic foreign key \<^verbatim>\<open>content_object\<close>: the key is one of the declared
  fields and one of the virtual fields.
\<close>

definition tagged_item_options :: options where
  "tagged_item_options =
     options_of [plain_field ''tag'', generic_key ''content_object'']
       [generic_key ''content_object'']"

definition tagged_item :: py_class where
  "tagged_item =
     \<lparr>meta = Some tagged_item_options, members = [(''content_object'', PyDataDescriptor)]\<rparr>"

definition tagged_item_inspector :: inspect_model where
  "tagged_item_inspector =
     \<lparr>model = tagged_item, fields' = {''tag'', ''content_object''},
      relation_fields = {''content_object''}, many_fields = {}, attributes = {}, methods = {},
      items = {''tag'', ''content_object''}, properties = {}\<rparr>"

definition tagged_item_fields_only :: inspect_model where
  "tagged_item_fields_only =
     \<lparr>model = tagged_item, fields' = {''tag'', ''content_object''},
      relation_fields = {}, many_fields = {}, attributes = {}, methods = {},
      items = {''tag'', ''content_object''}, properties = {}\<rparr>"

text \<open>A model whose only method of its own is \<^verbatim>\<open>save(self)\<close>.\<close>

definition saver :: py_class where
  "saver =
     \<lparr>meta = Some (options_of [plain_field ''id''] []),
      members = [(''save'', method_of [''self''] None)]\<rparr>"

definition saver_inspector :: inspect_model where
  "saver_inspector =
     \<lparr>model = saver, fields' = {''id''}, relation_fields = {}, many_fields = {},
      attributes = {}, methods = {}, items = {''id''}, properties = {}\<rparr>"



text \<open>
  Plain classes, without \<^verbatim>\<open>_meta\<close>: one with a property named \<^verbatim>\<open>_secret\<close> and a class
  attribute \<^verbatim>\<open>limit\<close>, one with a method \<^verbatim>\<open>area\<close> whose signature \<^verbatim>\<open>inspect.getargspec\<close>
  refuses, one with a method \<^verbatim>\<open>describe(self)\<close>.
\<close>

definition secretive :: py_class where
  "secretive = \<lparr>meta = None, members = [(''_secret'', PyProperty), (''limit'', PyData)]\<rparr>"

definition secretive_inspector :: inspect_model where
  "secretive_inspector =
     \<lparr>model = secretive, fields' = {}, relation_fields = {}, many_fields = {},
      attributes = {''limit''}, methods = {}, items = {''limit'', ''_secret''},
      properties = {''_secret''}\<rparr>"

definition shape :: py_class where
  "shape = \<lparr>meta = None, members = [(''area'', PyFunction None False)]\<rparr>"

definition plain :: py_class where
  "plain =
     \<lparr>meta = None,
      members = [(''describe'', method_of [''self''] None), (''limit'', PyData),
                 (''label'', PyProperty)]\<rparr>"

definition plain_inspector :: inspect_model where
  "plain_inspector =
     \<lparr>model = plain, fields' = {}, relation_fields = {}, many_fields = {},
      attributes = {''limit''}, methods = {''describe''},
      items = {''limit'', ''describe'', ''label''}, properties = {''label''}\<rparr>"

text \<open>
  A model with a field \<^verbatim>\<open>id\<close> and a method \<^verbatim>\<open>thumbnail\<close> whose signature
  \<^verbatim>\<open>inspect.getargspec\<close> refuses.
\<close>

definition gallery :: py_class where
  "gallery =
     \<lparr>meta = Some (options_of [plain_field ''id''] []),
      members = [(''thumbnail'', PyMethod None False)]\<rparr>"

section \<open>What each pass leaves in the inspector\<close>

lemma add_item_sel [simp]:
  "model (add_item x t s) = model s"
  "fields' (add_item x t s) = (if t = Fields then insert x (fields' s) else fields' s)"
  "relation_fields (add_item x t s) = (if t = RelationFields then insert x (relation_fields s) else relation_fields s)"
  "many_fields (add_item x t s) = (if t = ManyFields then insert x (many_fields s) else many_fields s)"
  "attributes (add_item x t s) = (if t = Attributes then insert x (attributes s) else attributes s)"
  "methods (add_item x t s) = (if t = Methods then insert x (methods s) else methods s)"
  "properties (add_item x t s) = (if t = Properties then insert x (properties s) else properties s)"
  "items (add_item x t s) = insert x (items s)"
  by (cases t; simp add: add_item_def Let_def)+

lemma attributes_loop_frame [simp]:
  "model (attributes_loop e as s) = model s"
  "fields' (attributes_loop e as s) = fields' s"
  "relation_fields (attributes_loop e as s) = relation_fields s"
  "many_fields (attributes_loop e as s) = many_fields s"
  "methods (attributes_loop e as s) = methods s"
  "properties (attributes_loop e as s) = properties s"
  by (induction as arbitrary: s; simp add: Let_def)+

lemma attributes_loop_attributes:
  "attributes (attributes_loop e as s) =
     attributes s \<union> set (filter (is_attribute e (model s) (fields' s)) as)"
  by (induction as arbitrary: s) (auto simp: Let_def is_attribute_def)

lemma attributes_loop_items:
  "items (attributes_loop e as s) =
     items s \<union> set (filter (is_attribute e (model s) (fields' s)) as)"
  by (induction as arbitrary: s) (auto simp: Let_def is_attribute_def)

lemma properties_loop_frame [simp]:
  "model (properties_loop ns s) = model s"
  "fields' (properties_loop ns s) = fields' s"
  "relation_fields (properties_loop ns s) = relation_fields s"
  "many_fields (properties_loop ns s) = many_fields s"
  "methods (properties_loop ns s) = methods s"
  "attributes (properties_loop ns s) = attributes s"
  by (induction ns arbitrary: s; simp)+

lemma properties_loop_properties:
  "properties (properties_loop ns s) =
     properties s \<union> set (filter (\<lambda>n. isinstance_property (getattr (model s) n)) ns)"
  by (induction ns arbitrary: s) auto

lemma properties_loop_items:
  "items (properties_loop ns s) =
     items s \<union> set (filter (\<lambda>n. isinstance_property (getattr (model s) n)) ns)"
  by (induction ns arbitrary: s) auto

lemma methods_loop_frame:
  "methods_loop ms s = Inr s' \<Longrightarrow>
     model s' = model s \<and> fields' s' = fields' s \<and> relation_fields s' = relation_fields s \<and>
     many_fields s' = many_fields s \<and> attributes s' = attributes s \<and> properties s' = properties s"
  by (induction ms arbitrary: s) (auto split: if_splits sum.splits)

lemma methods_loop_methods:
  "methods_loop ms s = Inr s' \<Longrightarrow>
     methods s' = methods s \<union>
       set (filter (\<lambda>m. scanned (fields' s) m \<and> is_method_without_args (getattr (model s) m) = Inr True) ms)"
  by (induction ms arbitrary: s) (auto simp: scanned_def split: if_splits sum.splits)

lemma methods_loop_items:
  "methods_loop ms s = Inr s' \<Longrightarrow>
     items s' = items s \<union>
       set (filter (\<lambda>m. scanned (fields' s) m \<and> is_method_without_args (getattr (model s) m) = Inr True) ms)"
  by (induction ms arbitrary: s) (auto simp: scanned_def split: if_splits sum.splits)

lemma classify_field_frame:
  "classify_field f s = Inr s' \<Longrightarrow>
     model s' = model s \<and> attributes s' = attributes s \<and> methods s' = methods s \<and>
     properties s' = properties s"
  by (auto simp: classify_field_def Let_def split: if_splits option.splits)

lemma classify_field_mono:
  "classify_field f s = Inr s' \<Longrightarrow>
     fields' s \<subseteq> fields' s' \<and> relation_fields s \<subseteq> relation_fields s' \<and>
     many_fields s \<subseteq> many_fields s'"
  by (auto simp: classify_field_def Let_def split: if_splits option.splits)

lemma classify_field_union:
  "classify_field f s = Inr s' \<Longrightarrow>
     items s = fields' s \<union> relation_fields s \<union> many_fields s \<union> X \<Longrightarrow>
     items s' = fields' s' \<union> relation_fields s' \<union> many_fields s' \<union> X"
  by (auto simp: classify_field_def Let_def split: if_splits option.splits)

lemma classify_field_classified:
  "classify_field f s = Inr s' \<Longrightarrow> classified_as_specified f s'"
  by (auto simp: classify_field_def classified_as_specified_def Let_def split: if_splits option.splits)

lemma classified_mono:
  "classified_as_specified f s \<Longrightarrow> fields' s \<subseteq> fields' s' \<Longrightarrow> relation_fields s \<subseteq> relation_fields s' \<Longrightarrow>
     many_fields s \<subseteq> many_fields s' \<Longrightarrow> classified_as_specified f s'"
  by (auto simp: classified_as_specified_def split: if_splits option.splits)

lemma fields_loop_frame:
  "fields_loop opts ns s = Inr s' \<Longrightarrow>
     model s' = model s \<and> attributes s' = attributes s \<and> methods s' = methods s \<and>
     properties s' = properties s"
proof (induction ns arbitrary: s)
  case Nil
  then show ?case by simp
next
  case (Cons n ns)
  then show ?case
    by (auto split: option.splits sum.splits dest!: classify_field_frame)
qed

lemma fields_loop_mono:
  "fields_loop opts ns s = Inr s' \<Longrightarrow>
     fields' s \<subseteq> fields' s' \<and> relation_fields s \<subseteq> relation_fields s' \<and>
     many_fields s \<subseteq> many_fields s'"
proof (induction ns arbitrary: s)
  case Nil
  then show ?case by simp
next
  case (Cons n ns)
  from Cons.prems obtain f s1 where f: "get_field opts n = Some f"
    and c: "classify_field f s = Inr s1" and l: "fields_loop opts ns s1 = Inr s'"
    by (auto split: option.splits sum.splits)
  from classify_field_mono [OF c] Cons.IH [OF l] show ?case by blast
qed

lemma fields_loop_union:
  "fields_loop opts ns s = Inr s' \<Longrightarrow>
     items s = fields' s \<union> relation_fields s \<union> many_fields s \<union> X \<Longrightarrow>
     items s' = fields' s' \<union> relation_fields s' \<union> many_fields s' \<union> X"
proof (induction ns arbitrary: s)
  case Nil
  then show ?case by simp
next
  case (Cons n ns)
  from Cons.prems(1) obtain f s1 where f: "get_field opts n = Some f"
    and c: "classify_field f s = Inr s1" and l: "fields_loop opts ns s1 = Inr s'"
    by (auto split: option.splits sum.splits)
  from classify_field_union [OF c Cons.prems(2)] Cons.IH [OF l] show ?case by blast
qed

lemma fields_loop_classified:
  "fields_loop opts ns s = Inr s' \<Longrightarrow> n \<in> set ns \<Longrightarrow> get_field opts n = Some f \<Longrightarrow>
     classified_as_specified f s'"
proof (induction ns arbitrary: s)
  case Nil
  then show ?case by simp
next
  case (Cons a ns)
  from Cons.prems(1) obtain g s1 where g: "get_field opts a = Some g"
    and c: "classify_field g s = Inr s1" and l: "fields_loop opts ns s1 = Inr s'"
    by (auto split: option.splits sum.splits)
  show ?case
  proof (cases "n = a")
    case True
    with g Cons.prems(3) have "g = f" by simp
    with c have "classified_as_specified f s1" by (simp add: classify_field_classified)
    with fields_loop_mono [OF l] show ?thesis by (blast intro: classified_mono)
  next
    case False
    with Cons.prems(2) have "n \<in> set ns" by simp
    from Cons.IH [OF l this Cons.prems(3)] show ?thesis .
  qed
qed

lemma virtual_loop_frame [simp]:
  "model (virtual_loop fs s) = model s"
  "fields' (virtual_loop fs s) = fields' s"
  "many_fields (virtual_loop fs s) = many_fields s"
  "attributes (virtual_loop fs s) = attributes s"
  "methods (virtual_loop fs s) = methods s"
  "properties (virtual_loop fs s) = properties s"
  by (induction fs arbitrary: s; simp)+

lemma virtual_loop_relation_fields:
  "relation_fields (virtual_loop fs s) =
     relation_fields s \<union> name ` set (filter generic_foreign_key fs)"
  by (induction fs arbitrary: s) auto

lemma virtual_loop_items:
  "items (virtual_loop fs s) = items s \<union> name ` set (filter generic_foreign_key fs)"
  by (induction fs arbitrary: s) auto

lemma update_attributes_sel [simp]:
  "model (update_attributes e s) = model s"
  "fields' (update_attributes e s) = fields' s"
  "relation_fields (update_attributes e s) = relation_fields s"
  "many_fields (update_attributes e s) = many_fields s"
  "methods (update_attributes e s) = methods s"
  "properties (update_attributes e s) = properties s"
  "attributes (update_attributes e s) =
     set (filter (is_attribute e (model s) (fields' s)) (dir (model s)))"
  "items (update_attributes e s) =
     items s \<union> set (filter (is_attribute e (model s) (fields' s)) (dir (model s)))"
  by (simp_all add: update_attributes_def Let_def attributes_loop_attributes attributes_loop_items)

lemma update_properties_sel [simp]:
  "model (update_properties s) = model s"
  "fields' (update_properties s) = fields' s"
  "relation_fields (update_properties s) = relation_fields s"
  "many_fields (update_properties s) = many_fields s"
  "methods (update_properties s) = methods s"
  "attributes (update_properties s) = attributes s"
  "properties (update_properties s) =
     set (filter (\<lambda>n. isinstance_property (getattr (model s) n)) (dir (model s)))"
  "items (update_properties s) =
     items s \<union> set (filter (\<lambda>n. isinstance_property (getattr (model s) n)) (dir (model s)))"
  by (simp_all add: update_properties_def Let_def properties_loop_properties properties_loop_items)

lemma update_methods_sel:
  assumes "update_methods s = Inr s'"
  shows "model s' = model s" and "fields' s' = fields' s"
    and "relation_fields s' = relation_fields s" and "many_fields s' = many_fields s"
    and "attributes s' = attributes s" and "properties s' = properties s"
    and "methods s' =
       set (filter (\<lambda>m. scanned (fields' s) m \<and>
                        is_method_without_args (getattr (model s) m) = Inr True) (dir (model s)))"
    and "items s' = items s \<union>
       set (filter (\<lambda>m. scanned (fields' s) m \<and>
                        is_method_without_args (getattr (model s) m) = Inr True) (dir (model s)))"
proof -
  from assms have l: "methods_loop (dir (model s)) (s\<lparr>methods := {}\<rparr>) = Inr s'"
    by (simp add: update_methods_def Let_def)
  from methods_loop_frame [OF l]
  show "model s' = model s" and "fields' s' = fields' s"
    and "relation_fields s' = relation_fields s" and "many_fields s' = many_fields s"
    and "attributes s' = attributes s" and "properties s' = properties s"
    by simp_all
  from methods_loop_methods [OF l]
  show "methods s' =
       set (filter (\<lambda>m. scanned (fields' s) m \<and>
                        is_method_without_args (getattr (model s) m) = Inr True) (dir (model s)))"
    by simp
  from methods_loop_items [OF l]
  show "items s' = items s \<union>
       set (filter (\<lambda>m. scanned (fields' s) m \<and>
                        is_method_without_args (getattr (model s) m) = Inr True) (dir (model s)))"
    by simp
qed

lemma methods_loop_total:
  "list_all (\<lambda>m. scanned (fields' s) m \<longrightarrow>
               \<not> isl (is_method_without_args (getattr (model s) m))) ms \<Longrightarrow>
   \<exists>s'. methods_loop ms s = Inr s'"
proof (induction ms arbitrary: s)
  case Nil
  then show ?case by simp
next
  case (Cons m ms)
  then show ?case
    by (cases "is_method_without_args (getattr (model s) m)")
       (auto simp: scanned_def)
qed

lemma update_methods_total:
  "signatures_known (model s) (fields' s) \<Longrightarrow> \<exists>s'. update_methods s = Inr s'"
  using methods_loop_total [of "s\<lparr>methods := {}\<rparr>" "dir (model s)"]
  by (simp add: update_methods_def signatures_known_def Let_def)

lemma update_fields_conj:
  assumes "update_fields e (initial cls) = Inr s1"
  shows "model s1 = cls \<and> attributes s1 = {} \<and> methods s1 = {} \<and> properties s1 = {} \<and>
      items s1 = fields' s1 \<union> relation_fields s1 \<union> many_fields s1"
proof (cases "meta cls")
  case None
  with assms have "s1 = (initial cls)\<lparr>fields' := {}, relation_fields := {}, many_fields := {}\<rparr>"
    by (auto simp: update_fields_def Let_def initial_def)
  then show ?thesis by (simp add: initial_def)
next
  case (Some opts)
  let ?s0 = "(initial cls)\<lparr>fields' := {}, relation_fields := {}, many_fields := {}\<rparr>"
  have s0: "items ?s0 = fields' ?s0 \<union> relation_fields ?s0 \<union> many_fields ?s0 \<union> {}"
    by (simp add: initial_def)
  from Some assms obtain s' where l: "fields_loop opts (map name (get_fields opts)) ?s0 = Inr s'"
    and s1: "s1 = generic_scan e opts s'"
    by (auto simp: update_fields_def Let_def initial_def split: sum.splits)
  from fields_loop_frame [OF l] have fr: "model s' = cls" "attributes s' = {}" "methods s' = {}"
    "properties s' = {}"
    by (simp_all add: initial_def)
  from fields_loop_union [OF l s0]
  have u: "items s' = fields' s' \<union> relation_fields s' \<union> many_fields s'" by simp
  show ?thesis
    using fr u by (auto simp: s1 generic_scan_def virtual_loop_relation_fields virtual_loop_items)
qed

lemma update_fields_sel:
  assumes "update_fields e (initial cls) = Inr s1"
  shows "model s1 = cls" and "attributes s1 = {}" and "methods s1 = {}" and "properties s1 = {}"
    and "items s1 = fields' s1 \<union> relation_fields s1 \<union> many_fields s1"
  using update_fields_conj [OF assms] by simp_all

lemma init_Inr:
  assumes "init e ref = Inr s"
  obtains s1 where "update_fields e (initial (resolve_model ref)) = Inr s1"
    and "model s = resolve_model ref"
    and "fields' s = fields' s1" and "relation_fields s = relation_fields s1"
    and "many_fields s = many_fields s1"
    and "attributes s =
       set (filter (is_attribute e (resolve_model ref) (fields' s1)) (dir (resolve_model ref)))"
    and "methods s =
       set (filter (\<lambda>m. scanned (fields' s1) m \<and>
              is_method_without_args (getattr (resolve_model ref) m) = Inr True)
            (dir (resolve_model ref)))"
    and "properties s =
       set (filter (\<lambda>n. isinstance_property (getattr (resolve_model ref) n))
            (dir (resolve_model ref)))"
    and "items s = fields' s \<union> relation_fields s \<union> many_fields s \<union> attributes s \<union>
       methods s \<union> properties s"
proof -
  from assms obtain s1 s3 where f: "update_fields e (initial (resolve_model ref)) = Inr s1"
    and m: "update_methods (update_attributes e s1) = Inr s3"
    and s: "s = update_properties s3"
    by (auto simp: init_def Let_def split: sum.splits)
  note f1 = update_fields_sel [OF f]
  note m3 = update_methods_sel [OF m]
  show thesis
  proof (rule that [OF f])
    show "model s = resolve_model ref" by (simp add: s m3 f1)
    show "fields' s = fields' s1" by (simp add: s m3)
    show "relation_fields s = relation_fields s1" by (simp add: s m3)
    show "many_fields s = many_fields s1" by (simp add: s m3)
    show "attributes s =
       set (filter (is_attribute e (resolve_model ref) (fields' s1)) (dir (resolve_model ref)))"
      by (simp add: s m3 f1)
    show "methods s =
       set (filter (\<lambda>m. scanned (fields' s1) m \<and>
              is_method_without_args (getattr (resolve_model ref) m) = Inr True)
            (dir (resolve_model ref)))"
      by (simp add: s m3 f1)
    show "properties s =
       set (filter (\<lambda>n. isinstance_property (getattr (resolve_model ref) n))
            (dir (resolve_model ref)))"
      by (simp add: s m3 f1)
    show "items s = fields' s \<union> relation_fields s \<union> many_fields s \<union> attributes s \<union>
       methods s \<union> properties s"
      by (simp add: s m3 f1 Un_assoc)
  qed
qed

lemma init_total:
  assumes "update_fields e (initial (resolve_model ref)) = Inr s1"
    and "signatures_known (resolve_model ref) (fields' s1)"
  shows "\<exists>s. init e ref = Inr s"
proof -
  from update_fields_sel(1) [OF assms(1)] assms(2)
  have "signatures_known (model (update_attributes e s1)) (fields' (update_attributes e s1))"
    by simp
  from update_methods_total [OF this] obtain s3
    where "update_methods (update_attributes e s1) = Inr s3" ..
  with assms(1) show ?thesis by (simp add: init_def Let_def)
qed

lemmas fixture_defs = django_def django_without_generic_def plain_field_def foreign_key_def
  many_to_many_field_def generic_key_def reverse_relation_def options_of_def method_of_def

lemmas run_defs = init_def initial_def update_fields_def update_attributes_def
  update_methods_def update_properties_def generic_scan_def classify_field_def
  is_method_without_args_def add_item_def dir_def getattr_def startswith_def
  ALL_BUT_ATTRIBUTES_def DJANGO_GENERATED_METHODS_def isroutine_def Let_def

lemma init_article: "init django (ClassRef article) = Inr article_inspector"
  by (simp add: article_def article_inspector_def fixture_defs run_defs insert_commute)

lemma init_blog: "init django (ClassRef blog) = Inr blog_inspector"
  by (simp add: blog_def blog_options_def blog_inspector_def fixture_defs run_defs
      insert_commute)

lemma init_tagged_item: "init django (ClassRef tagged_item) = Inr tagged_item_inspector"
  by (simp add: tagged_item_def tagged_item_options_def tagged_item_inspector_def
      fixture_defs run_defs insert_commute)

lemma init_saver: "init django (ClassRef saver) = Inr saver_inspector"
  by (simp add: saver_def saver_inspector_def fixture_defs run_defs insert_commute)


lemma init_secretive: "init django (ClassRef secretive) = Inr secretive_inspector"
  by (simp add: secretive_def secretive_inspector_def fixture_defs run_defs insert_commute)

lemma init_shape: "init django (ClassRef shape) = Inl TypeError"
  by (simp add: shape_def fixture_defs run_defs)

lemma init_plain: "init django (ClassRef plain) = Inr plain_inspector"
  by (simp add: plain_def plain_inspector_def fixture_defs run_defs insert_commute)

lemma is_method_without_args_True:
  "is_method_without_args v = Inr True \<longleftrightarrow>
     (isfunction v \<or> ismethod v) \<and>
     (\<exists>spec. getargspec v = Inr spec \<and> required_parameter_count spec = 0)"
proof (cases "isfunction v \<or> ismethod v")
  case False
  then show ?thesis by (simp add: is_method_without_args_def)
next
  case True
  show ?thesis
  proof (cases "getargspec v")
    case (Inl err)
    with True show ?thesis by (auto simp: is_method_without_args_def)
  next
    case (Inr spec)
    obtain args var named defaults where spec: "spec = (args, var, named, defaults)"
      by (cases spec)
    show ?thesis
    proof (cases defaults)
      case None
      with True Inr spec show ?thesis
        by (auto simp: is_method_without_args_def)
    next
      case (Some ds)
      with True Inr spec show ?thesis
        by (cases "ds = []") (auto simp: is_method_without_args_def)
    qed
  qed
qed

lemma is_attribute_not_callable:
  "is_attribute e cls flds a \<Longrightarrow>
     \<not> isfunction (getattr cls a) \<and> \<not> ismethod (getattr cls a) \<and>
     \<not> isdatadescriptor (getattr cls a)"
  by (simp add: is_attribute_def ALL_BUT_ATTRIBUTES_def)

lemma property_is_datadescriptor:
  "isinstance_property v \<Longrightarrow> isdatadescriptor v \<and> \<not> isfunction v \<and> \<not> ismethod v"
  by (cases v) simp_all

lemma init_resolved: "init e ref = init e (ClassRef (resolve_model ref))"
  by (simp add: init_def)

lemma fields_loop_tagged_item:
  "fields_loop tagged_item_options (map name (get_fields tagged_item_options))
     (initial (resolve_model (ClassRef tagged_item))) = Inr tagged_item_fields_only"
  by (simp add: tagged_item_options_def tagged_item_fields_only_def fixture_defs
      classify_field_def add_item_def initial_def Let_def insert_commute)

section \<open>The properties of the specification\<close>

text \<open>
  What does hold of the seven sets on every finished inspector: \<open>items\<close> is the union of
  the other six; \<open>attributes\<close>, \<open>methods\<close> and \<open>properties\<close> are pairwise disjoint, and
  \<open>attributes\<close> and \<open>methods\<close> are each disjoint from \<open>fields'\<close>.
\<close>

lemma items_is_union:
  assumes "init e ref = Inr s"
  shows "items s = fields' s \<union> relation_fields s \<union> many_fields s \<union> attributes s \<union>
           methods s \<union> properties s \<and>
         attributes s \<inter> methods s = {} \<and> attributes s \<inter> properties s = {} \<and>
         methods s \<inter> properties s = {} \<and>
         fields' s \<inter> attributes s = {} \<and> fields' s \<inter> methods s = {}"
proof -
  from assms obtain s1 :: inspect_model where
    a: "attributes s =
       set (filter (is_attribute e (resolve_model ref) (fields' s1)) (dir (resolve_model ref)))"
    and m: "methods s =
       set (filter (\<lambda>m. scanned (fields' s1) m \<and>
              is_method_without_args (getattr (resolve_model ref) m) = Inr True)
            (dir (resolve_model ref)))"
    and p: "properties s =
       set (filter (\<lambda>n. isinstance_property (getattr (resolve_model ref) n))
            (dir (resolve_model ref)))"
    and f: "fields' s = fields' s1"
    and u: "items s = fields' s \<union> relation_fields s \<union> many_fields s \<union> attributes s \<union>
       methods s \<union> properties s"
    by (rule init_Inr) blast
  have am: "attributes s \<inter> methods s = {}"
    using is_attribute_not_callable [of e "resolve_model ref" "fields' s1"]
    by (auto simp: a m is_method_without_args_True)
  have ap: "attributes s \<inter> properties s = {}"
    using is_attribute_not_callable [of e "resolve_model ref" "fields' s1"]
    by (auto simp: a p dest: property_is_datadescriptor)
  have mp: "methods s \<inter> properties s = {}"
    by (auto simp: m p is_method_without_args_True dest: property_is_datadescriptor)
  have fa: "fields' s \<inter> attributes s = {}"
    by (auto simp: a f is_attribute_def)
  have fm: "fields' s \<inter> methods s = {}"
    by (auto simp: m f scanned_def)
  from u am ap mp fa fm show ?thesis by blast
qed

text \<open>
  C1. After construction \<open>items\<close> is the union of \<open>fields'\<close>, \<open>relation_fields\<close>,
  \<open>many_fields\<close>, \<open>attributes\<close>, \<open>methods\<close> and \<open>properties\<close>, and the six sets are pairwise
  disjoint. The code breaks the second half: the generic foreign key \<^verbatim>\<open>content_object\<close> of
  \<open>tagged_item\<close> is a declared field without relation metadata, so the loop over the
  fields takes the branch commented \<^verbatim>\<open># standard field\<close> and puts it into \<open>fields'\<close>, and
  the scan of the virtual fields puts it into \<open>relation_fields\<close>, where the docstring of
  \<^verbatim>\<open>update_fields\<close> places a \<^verbatim>\<open>GenericForeignKey\<close>.
\<close>

theorem generic_key_in_two_sets:
  "init django (ClassRef tagged_item) = Inr tagged_item_inspector \<and>
   ''content_object'' \<in> fields' tagged_item_inspector \<and>
   ''content_object'' \<in> relation_fields tagged_item_inspector \<and>
   fields' tagged_item_inspector \<inter> relation_fields tagged_item_inspector \<noteq> {}"
  using init_tagged_item by (simp add: tagged_item_inspector_def)

text \<open>
  C2. On a finished inspector every declared field entry that \<^verbatim>\<open>get_field\<close> returns for
  its own name is classified as the specification says: a direct entry with relation
  metadata under its name, in \<open>many_fields\<close> when the relation has a link table and in
  \<open>relation_fields\<close> otherwise; a direct entry without relation metadata in \<open>fields'\<close>; a
  reverse entry under its accessor name, in \<open>many_fields\<close> when the remote relation is
  multiple and in \<open>relation_fields\<close> otherwise.
\<close>

theorem fields_classified:
  assumes "init e ref = Inr s" and "meta (resolve_model ref) = Some opts"
    and "f \<in> set (get_fields opts)" and "get_field opts (name f) = Some f"
  shows "classified_as_specified f s"
proof -
  let ?s0 = "initial (resolve_model ref)"
  from assms(1) obtain s1 :: inspect_model where u: "update_fields e ?s0 = Inr s1"
    and eq: "fields' s = fields' s1" "relation_fields s = relation_fields s1"
      "many_fields s = many_fields s1"
    by (rule init_Inr) blast
  have r: "?s0\<lparr>fields' := {}, relation_fields := {}, many_fields := {}\<rparr> = ?s0"
    by (simp add: initial_def)
  have m: "model ?s0 = resolve_model ref" by (simp add: initial_def)
  from u assms(2) obtain s' where l: "fields_loop opts (map name (get_fields opts)) ?s0 = Inr s'"
    and s1: "s1 = generic_scan e opts s'"
    by (auto simp: update_fields_def Let_def r m split: sum.splits)
  from assms(3) have "name f \<in> set (map name (get_fields opts))" by simp
  from fields_loop_classified [OF l this assms(4)] have c: "classified_as_specified f s'" .
  have "fields' s' \<subseteq> fields' s" "relation_fields s' \<subseteq> relation_fields s"
    "many_fields s' \<subseteq> many_fields s"
    by (auto simp: eq s1 generic_scan_def virtual_loop_relation_fields)
  from classified_mono [OF c this] show ?thesis .
qed

theorem fields_classified_witness:
  "init django (ClassRef blog) = Inr blog_inspector \<and>
   meta (resolve_model (ClassRef blog)) = Some blog_options \<and>
   get_fields blog_options =
     [plain_field ''name'', foreign_key ''owner'', many_to_many_field ''editors'',
      reverse_relation ''entry'' ''entry_set'' True,
      reverse_relation ''profile'' ''profile'' False] \<and>
   list_all (\<lambda>f. get_field blog_options (name f) = Some f) (get_fields blog_options) \<and>
   list_all (\<lambda>f. classified_as_specified f blog_inspector) (get_fields blog_options) \<and>
   ''name'' \<in> fields' blog_inspector \<and>
   ''owner'' \<in> relation_fields blog_inspector \<and>
   ''editors'' \<in> many_fields blog_inspector \<and>
   ''entry_set'' \<in> many_fields blog_inspector \<and>
   ''profile'' \<in> relation_fields blog_inspector"
proof -
  have m: "meta (resolve_model (ClassRef blog)) = Some blog_options"
    by (simp add: blog_def)
  have g: "get_fields blog_options =
     [plain_field ''name'', foreign_key ''owner'', many_to_many_field ''editors'',
      reverse_relation ''entry'' ''entry_set'' True,
      reverse_relation ''profile'' ''profile'' False]"
    by (simp add: blog_options_def options_of_def)
  have l: "list_all (\<lambda>f. get_field blog_options (name f) = Some f) (get_fields blog_options)"
    by (simp add: blog_options_def fixture_defs)
  have c: "list_all (\<lambda>f. classified_as_specified f blog_inspector) (get_fields blog_options)"
    unfolding list_all_iff
  proof
    fix f
    assume f: "f \<in> set (get_fields blog_options)"
    with l have "get_field blog_options (name f) = Some f" by (simp add: list_all_iff)
    from fields_classified [OF init_blog m f this]
    show "classified_as_specified f blog_inspector" .
  qed
  from c have "''name'' \<in> fields' blog_inspector"
    and "''owner'' \<in> relation_fields blog_inspector"
    and "''editors'' \<in> many_fields blog_inspector"
    and "''entry_set'' \<in> many_fields blog_inspector"
    and "''profile'' \<in> relation_fields blog_inspector"
    by (simp_all add: g classified_as_specified_def fixture_defs)
  with init_blog m g l c show ?thesis by blast
qed



text \<open>
  C4. No name in \<open>methods\<close> is one of \<^verbatim>\<open>check\<close>, \<^verbatim>\<open>clean\<close>, \<^verbatim>\<open>clean_fields\<close>, \<^verbatim>\<open>delete\<close>,
  \<^verbatim>\<open>full_clean\<close>, \<^verbatim>\<open>save\<close>, \<^verbatim>\<open>save_base\<close>, \<^verbatim>\<open>validate_unique\<close>. A model whose only
  method is \<^verbatim>\<open>save(self)\<close> has no \<^verbatim>\<open>save\<close> in \<open>methods\<close>, although the method takes no
  argument besides the receiver.
\<close>

theorem methods_not_generated:
  assumes "init e ref = Inr s"
  shows "methods s \<inter> DJANGO_GENERATED_METHODS = {}"
proof -
  from assms obtain s1 :: inspect_model where
    m: "methods s =
       set (filter (\<lambda>m. scanned (fields' s1) m \<and>
              is_method_without_args (getattr (resolve_model ref) m) = Inr True)
            (dir (resolve_model ref)))"
    by (rule init_Inr) blast
  show ?thesis by (auto simp: m scanned_def)
qed

theorem methods_not_generated_witness:
  "init django (ClassRef saver) = Inr saver_inspector \<and>
   methods saver_inspector \<inter> DJANGO_GENERATED_METHODS = {} \<and>
   is_method_without_args (getattr saver ''save'') = Inr True \<and>
   ''save'' \<in> DJANGO_GENERATED_METHODS \<and> ''save'' \<notin> methods saver_inspector"
proof -
  have a: "is_method_without_args (getattr saver ''save'') = Inr True"
    by (simp add: saver_def getattr_def method_of_def is_method_without_args_def)
  have g: "''save'' \<in> DJANGO_GENERATED_METHODS" by (simp add: DJANGO_GENERATED_METHODS_def)
  from methods_not_generated [OF init_saver] g a init_saver show ?thesis by blast
qed

text \<open>
  C5 (as amended). When the generic relations cannot be imported, the field pass is
  exactly the loop over the declared fields: the failed import raises nothing and adds no
  name. Construction then succeeds provided that loop raises nothing and
  \<^verbatim>\<open>inspect.getargspec\<close> answers for every function or method that the method pass looks
  at, and \<open>fields'\<close>, \<open>relation_fields\<close> and \<open>many_fields\<close> are what the loop produced.
\<close>

theorem generic_unavailable:
  assumes "\<not> generic_importable e" and "meta (resolve_model ref) = Some opts"
  shows "update_fields e (initial (resolve_model ref)) =
           fields_loop opts (map name (get_fields opts)) (initial (resolve_model ref)) \<and>
         (\<forall>s1. fields_loop opts (map name (get_fields opts)) (initial (resolve_model ref)) =
                 Inr s1 \<longrightarrow>
               signatures_known (resolve_model ref) (fields' s1) \<longrightarrow>
               (\<exists>s. init e ref = Inr s \<and> fields' s = fields' s1 \<and>
                    relation_fields s = relation_fields s1 \<and> many_fields s = many_fields s1))"
proof
  let ?s0 = "initial (resolve_model ref)"
  let ?loop = "fields_loop opts (map name (get_fields opts)) ?s0"
  have r: "?s0\<lparr>fields' := {}, relation_fields := {}, many_fields := {}\<rparr> = ?s0"
    by (simp add: initial_def)
  have m: "model ?s0 = resolve_model ref" by (simp add: initial_def)
  from assms show u: "update_fields e ?s0 = ?loop"
    by (cases ?loop) (simp_all add: update_fields_def Let_def r m generic_scan_def)
  show "\<forall>s1. ?loop = Inr s1 \<longrightarrow> signatures_known (resolve_model ref) (fields' s1) \<longrightarrow>
      (\<exists>s. init e ref = Inr s \<and> fields' s = fields' s1 \<and>
           relation_fields s = relation_fields s1 \<and> many_fields s = many_fields s1)"
  proof (intro allI impI)
    fix s1 :: inspect_model
    assume l: "?loop = Inr s1" and k: "signatures_known (resolve_model ref) (fields' s1)"
    from u l have u1: "update_fields e ?s0 = Inr s1" by simp
    from init_total [OF u1 k] obtain s where s: "init e ref = Inr s" ..
    from s obtain s1' :: inspect_model where "update_fields e ?s0 = Inr s1'"
      and "fields' s = fields' s1'" and "relation_fields s = relation_fields s1'"
      and "many_fields s = many_fields s1'"
      by (rule init_Inr) blast
    with u1 s show "\<exists>s. init e ref = Inr s \<and> fields' s = fields' s1 \<and>
        relation_fields s = relation_fields s1 \<and> many_fields s = many_fields s1"
      by simp
  qed
qed

text \<open>
  Without the proviso construction can fail although the import failure is swallowed:
  the method \<^verbatim>\<open>thumbnail\<close> of \<open>gallery\<close> makes \<^verbatim>\<open>inspect.getargspec\<close> raise.
\<close>

theorem generic_unavailable_counterexample:
  "\<not> generic_importable django_without_generic \<and>
   init django_without_generic (ClassRef gallery) = Inl TypeError"
  by (simp add: gallery_def fixture_defs run_defs)

theorem generic_unavailable_witness:
  "\<not> generic_importable django_without_generic \<and>
   meta (resolve_model (ClassRef tagged_item)) = Some tagged_item_options \<and>
   update_fields django_without_generic (initial (resolve_model (ClassRef tagged_item))) =
     Inr tagged_item_fields_only \<and>
   fields_loop tagged_item_options (map name (get_fields tagged_item_options))
     (initial (resolve_model (ClassRef tagged_item))) = Inr tagged_item_fields_only \<and>
   signatures_known (resolve_model (ClassRef tagged_item)) (fields' tagged_item_fields_only) \<and>
   relation_fields tagged_item_fields_only = {} \<and>
   (\<exists>s. init django_without_generic (ClassRef tagged_item) = Inr s \<and>
        fields' s = fields' tagged_item_fields_only \<and>
        relation_fields s = relation_fields tagged_item_fields_only \<and>
        many_fields s = many_fields tagged_item_fields_only)"
proof -
  have g: "\<not> generic_importable django_without_generic"
    by (simp add: django_without_generic_def)
  have m: "meta (resolve_model (ClassRef tagged_item)) = Some tagged_item_options"
    by (simp add: tagged_item_def)
  have k: "signatures_known (resolve_model (ClassRef tagged_item))
     (fields' tagged_item_fields_only)"
    by (simp add: signatures_known_def tagged_item_def dir_def getattr_def
        is_method_without_args_def)
  have r: "relation_fields tagged_item_fields_only = {}"
    by (simp add: tagged_item_fields_only_def)
  note t = generic_unavailable [OF g m]
  from t fields_loop_tagged_item have u: "update_fields django_without_generic
      (initial (resolve_model (ClassRef tagged_item))) = Inr tagged_item_fields_only"
    by simp
  from t fields_loop_tagged_item k
  have "\<exists>s. init django_without_generic (ClassRef tagged_item) = Inr s \<and>
        fields' s = fields' tagged_item_fields_only \<and>
        relation_fields s = relation_fields tagged_item_fields_only \<and>
        many_fields s = many_fields tagged_item_fields_only"
    by blast
  with g m u fields_loop_tagged_item k r show ?thesis by blast
qed

text \<open>
  C6. For the model \<open>article\<close>, with a text field \<^verbatim>\<open>title\<close>, a foreign key \<^verbatim>\<open>author\<close>, a
  many-to-many \<^verbatim>\<open>tags\<close>, a property \<^verbatim>\<open>display_name\<close> and a method \<^verbatim>\<open>summary(self)\<close>,
  construction gives \<open>fields' = {title}\<close>, \<open>relation_fields = {author}\<close>,
  \<open>many_fields = {tags}\<close>, \<open>properties = {display_name}\<close> and \<open>methods = {summary}\<close>.
\<close>

theorem article_scenario:
  "\<exists>s. init django (ClassRef article) = Inr s \<and>
     fields' s = {''title''} \<and> relation_fields s = {''author''} \<and>
     many_fields s = {''tags''} \<and> properties s = {''display_name''} \<and>
     methods s = {''summary''}"
  using init_article by (simp add: article_inspector_def)

text \<open>
  C7 (as amended). No name in \<open>attributes\<close> or in \<open>methods\<close> starts with an underscore.
  The field sets and \<open>properties\<close> are filled without that test.
\<close>

theorem no_underscore:
  assumes "init e ref = Inr s" and "n \<in> attributes s \<union> methods s"
  shows "\<not> startswith n ''_''"
proof -
  from assms(1) obtain s1 :: inspect_model where
    a: "attributes s =
       set (filter (is_attribute e (resolve_model ref) (fields' s1)) (dir (resolve_model ref)))"
    and m: "methods s =
       set (filter (\<lambda>m. scanned (fields' s1) m \<and>
              is_method_without_args (getattr (resolve_model ref) m) = Inr True)
            (dir (resolve_model ref)))"
    by (rule init_Inr) blast
  from assms(2) show ?thesis
    by (auto simp: a m is_attribute_def scanned_def)
qed

text \<open>A property named \<^verbatim>\<open>_secret\<close> is in \<open>properties\<close>.\<close>

theorem no_underscore_counterexample:
  "init django (ClassRef secretive) = Inr secretive_inspector \<and>
   ''_secret'' \<in> properties secretive_inspector \<and> startswith ''_secret'' ''_''"
  using init_secretive by (simp add: secretive_inspector_def startswith_def)

theorem no_underscore_witness:
  "init django (ClassRef secretive) = Inr secretive_inspector \<and>
   ''limit'' \<in> attributes secretive_inspector \<union> methods secretive_inspector \<and>
   \<not> startswith ''limit'' ''_''"
proof -
  have n: "''limit'' \<in> attributes secretive_inspector \<union> methods secretive_inspector"
    by (simp add: secretive_inspector_def)
  from no_underscore [OF init_secretive n] init_secretive n show ?thesis by blast
qed

text \<open>
  C8. An inspector built from an instance is the inspector built from the instance's
  class, whatever attributes the instance has; and the \<open>model\<close> of an inspector is the
  resolved class.
\<close>

theorem instance_as_class:
  "init e (InstanceRef cls d) = init e (ClassRef cls) \<and>
   (init e ref = Inr s \<longrightarrow> model s = resolve_model ref)"
proof
  show "init e (InstanceRef cls d) = init e (ClassRef cls)" by (simp add: init_def)
  show "init e ref = Inr s \<longrightarrow> model s = resolve_model ref"
    by (auto elim: init_Inr)
qed

theorem instance_as_class_witness:
  "init django (InstanceRef article [(''title'', PyData)]) = init django (ClassRef article) \<and>
   init django (InstanceRef article [(''title'', PyData)]) = Inr article_inspector \<and>
   model article_inspector = resolve_model (InstanceRef article [(''title'', PyData)])"
proof -
  note i = instance_as_class [of django article "[(''title'', PyData)]"
      "InstanceRef article [(''title'', PyData)]" article_inspector]
  from i init_article show ?thesis by simp
qed

text \<open>
  C9. Construction reads nothing but the runtime and the class, and leaves the class as
  it was: a second inspector, built from the class the first one holds (or from an
  instance of it), is equal to the first in every set.
\<close>

theorem init_again:
  assumes "init e ref = Inr s"
  shows "init e (ClassRef (model s)) = Inr s \<and> init e (InstanceRef (model s) d) = Inr s"
proof -
  from assms have "model s = resolve_model ref" by (auto elim: init_Inr)
  with assms show ?thesis by (simp add: init_def)
qed

theorem init_again_witness:
  "init django (ClassRef plain) = Inr plain_inspector \<and>
   init django (ClassRef (model plain_inspector)) = Inr plain_inspector \<and>
   init django (InstanceRef (model plain_inspector) []) = Inr plain_inspector"
  using init_again [OF init_plain, of "[]"] init_plain by blast

text \<open>
  C10 (as amended). For a class without \<^verbatim>\<open>_meta\<close>, construction succeeds provided
  \<^verbatim>\<open>inspect.getargspec\<close> answers for every function or method that the method pass looks
  at; then \<open>fields'\<close>, \<open>relation_fields\<close> and \<open>many_fields\<close> are empty, and \<open>attributes\<close>,
  \<open>methods\<close> and \<open>properties\<close> are what the three passes give on a fresh inspector.
\<close>

theorem no_meta:
  assumes "meta (resolve_model ref) = None" and "signatures_known (resolve_model ref) {}"
  shows "\<exists>s. init e ref = Inr s \<and> fields' s = {} \<and> relation_fields s = {} \<and>
     many_fields s = {} \<and>
     attributes s = attributes (update_attributes e (initial (resolve_model ref))) \<and>
     (\<exists>sm. update_methods (initial (resolve_model ref)) = Inr sm \<and> methods s = methods sm) \<and>
     properties s = properties (update_properties (initial (resolve_model ref)))"
proof -
  let ?s0 = "initial (resolve_model ref)"
  have s0: "model ?s0 = resolve_model ref" "fields' ?s0 = {}" by (simp_all add: initial_def)
  have r: "?s0\<lparr>fields' := {}, relation_fields := {}, many_fields := {}\<rparr> = ?s0"
    by (simp add: initial_def)
  from assms(1) have u: "update_fields e ?s0 = Inr ?s0"
    by (simp add: update_fields_def Let_def r s0)
  from assms(2) have "signatures_known (resolve_model ref) (fields' ?s0)" by (simp add: s0)
  from init_total [OF u this] obtain s where s: "init e ref = Inr s" ..
  from assms(2) have "signatures_known (model ?s0) (fields' ?s0)" by (simp add: s0)
  from update_methods_total [OF this] obtain sm where sm: "update_methods ?s0 = Inr sm" ..
  from s obtain s1 :: inspect_model where u1: "update_fields e ?s0 = Inr s1" and sel:
    "fields' s = fields' s1" "relation_fields s = relation_fields s1"
    "many_fields s = many_fields s1"
    "attributes s =
       set (filter (is_attribute e (resolve_model ref) (fields' s1)) (dir (resolve_model ref)))"
    "methods s =
       set (filter (\<lambda>m. scanned (fields' s1) m \<and>
              is_method_without_args (getattr (resolve_model ref) m) = Inr True)
            (dir (resolve_model ref)))"
    "properties s =
       set (filter (\<lambda>n. isinstance_property (getattr (resolve_model ref) n))
            (dir (resolve_model ref)))"
    by (rule init_Inr) blast
  from u u1 have s1: "s1 = ?s0" by simp
  have "fields' s = {}" "relation_fields s = {}" "many_fields s = {}"
    by (simp_all add: sel s1 initial_def)
  moreover have "attributes s = attributes (update_attributes e ?s0)"
    by (simp add: sel s1 s0)
  moreover have "methods s = methods sm"
    by (simp add: sel s1 s0 update_methods_sel(7) [OF sm])
  moreover have "properties s = properties (update_properties ?s0)"
    by (simp add: sel s0)
  ultimately show ?thesis using s sm by blast
qed

text \<open>
  Without the proviso construction can fail: the class \<open>shape\<close> has no \<^verbatim>\<open>_meta\<close>, and its
  method \<^verbatim>\<open>area\<close> makes \<^verbatim>\<open>inspect.getargspec\<close> raise.
\<close>

theorem no_meta_counterexample:
  "meta (resolve_model (ClassRef shape)) = None \<and> init django (ClassRef shape) = Inl TypeError"
  using init_shape by (simp add: shape_def)

theorem no_meta_witness:
  "meta (resolve_model (ClassRef plain)) = None \<and>
   signatures_known (resolve_model (ClassRef plain)) {} \<and>
   (\<exists>s. init django (ClassRef plain) = Inr s \<and> fields' s = {} \<and> relation_fields s = {} \<and>
     many_fields s = {} \<and>
     attributes s = attributes (update_attributes django (initial (resolve_model (ClassRef plain)))) \<and>
     (\<exists>sm. update_methods (initial (resolve_model (ClassRef plain))) = Inr sm \<and>
           methods s = methods sm) \<and>
     properties s = properties (update_properties (initial (resolve_model (ClassRef plain)))))"
proof -
  have m: "meta (resolve_model (ClassRef plain)) = None" by (simp add: plain_def)
  have k: "signatures_known (resolve_model (ClassRef plain)) {}"
    by (simp add: signatures_known_def plain_def dir_def getattr_def method_of_def
        is_method_without_args_def)
  from no_meta [OF m k, of django] m k show ?thesis by blast
qed

end
